theory Spec2Isabelle
  imports Complex_Main
begin

section \<open>Python values, exceptions and the library operations the handlers use\<close>

text \<open>
  The program is \<^verbatim>\<open>plant_api_openai.py\<close>: two Flask view functions, \<^verbatim>\<open>especie\<close> and
  \<^verbatim>\<open>esplanta\<close>, that relay a request to a chat-completion client and post-process its reply.

  Python text is modelled as \<open>string\<close>, one character per code point, for the code points
  U+0000 to U+00FF; \<^verbatim>\<open>str.strip\<close>, \<^verbatim>\<open>str.lower\<close>, the class \<^verbatim>\<open>\d\<close> and \<^verbatim>\<open>int\<close> of a
  string are written out for that range. The letter i with an acute accent, in the Spanish
  word for yes, is \<open>CHR 0xED\<close>. Request bodies (bytes) are \<open>string\<close> too, one character per byte.

  The values that \<^verbatim>\<open>json.loads\<close> produces, and that the client's reply is made of, are
  \<open>pyval\<close>. A float is the rational it denotes, or one of the three special values.
\<close>

datatype pyfloat = FNum rat | FNan | FPosInf | FNegInf

datatype pyval =
    PNone
  | PBool bool
  | PInt int
  | PFloat pyfloat
  | PStr string
  | PList "pyval list"
  | PDict "(string \<times> pyval) list"

text \<open>
  The exceptions are those deriving from \<^verbatim>\<open>Exception\<close>, so \<^verbatim>\<open>except Exception\<close> catches each
  of them. \<open>BadRequest\<close> is the HTTP exception of the framework; \<open>LibError\<close> is any
  exception of a library (the JSON decoder, the client), with its message.
\<close>

datatype pyexn =
    KeyError | IndexError | TypeError | AttributeError | ValueError | OverflowError
  | BadRequest | LibError string

text \<open>Truth value of an object, as \<^verbatim>\<open>or\<close>, \<^verbatim>\<open>and\<close>, \<^verbatim>\<open>not\<close> and \<^verbatim>\<open>if\<close> test it.\<close>

fun truthy :: "pyval \<Rightarrow> bool" where
  "truthy PNone = False"
| "truthy (PBool b) = b"
| "truthy (PInt n) = (n \<noteq> 0)"
| "truthy (PFloat f) = (f \<noteq> FNum 0)"
| "truthy (PStr s) = (s \<noteq> [])"
| "truthy (PList xs) = (xs \<noteq> [])"
| "truthy (PDict kvs) = (kvs \<noteq> [])"

text \<open>\<^verbatim>\<open>a or b\<close>\<close>

definition py_or :: "pyval \<Rightarrow> pyval \<Rightarrow> pyval" where
  "py_or a b = (if truthy a then a else b)"

text \<open>\<^verbatim>\<open>obj[key]\<close> with a string key.\<close>

fun py_getitem :: "pyval \<Rightarrow> string \<Rightarrow> pyexn + pyval" where
  "py_getitem (PDict kvs) k = (case map_of kvs k of None \<Rightarrow> Inl KeyError | Some v \<Rightarrow> Inr v)"
| "py_getitem _ k = Inl TypeError"

text \<open>\<^verbatim>\<open>obj[0]\<close>. The keys of a dictionary are strings, so \<^verbatim>\<open>0\<close> is never one of them.\<close>

fun py_getitem0 :: "pyval \<Rightarrow> pyexn + pyval" where
  "py_getitem0 (PList xs) = (case xs of [] \<Rightarrow> Inl IndexError | x # _ \<Rightarrow> Inr x)"
| "py_getitem0 (PStr s) = (case s of [] \<Rightarrow> Inl IndexError | c # _ \<Rightarrow> Inr (PStr [c]))"
| "py_getitem0 (PDict kvs) = Inl KeyError"
| "py_getitem0 _ = Inl TypeError"

text \<open>\<^verbatim>\<open>sub in s\<close> for two strings: \<open>sub\<close> occurs in \<open>s\<close> as a contiguous run.\<close>

fun str_contains :: "string \<Rightarrow> string \<Rightarrow> bool" where
  "str_contains sub [] = (sub = [])"
| "str_contains sub (c # cs) = (take (length sub) (c # cs) = sub \<or> str_contains sub cs)"

text \<open>\<^verbatim>\<open>key in obj\<close> with a string key.\<close>

fun py_contains :: "string \<Rightarrow> pyval \<Rightarrow> pyexn + bool" where
  "py_contains k (PDict kvs) = Inr (map_of kvs k \<noteq> None)"
| "py_contains k (PList xs) = Inr (PStr k \<in> set xs)"
| "py_contains k (PStr s) = Inr (str_contains k s)"
| "py_contains k _ = Inl TypeError"

text \<open>\<^verbatim>\<open>obj.get(key, default)\<close>: only a dictionary has the method.\<close>

fun py_get :: "pyval \<Rightarrow> string \<Rightarrow> pyval \<Rightarrow> pyexn + pyval" where
  "py_get (PDict kvs) k d = (case map_of kvs k of None \<Rightarrow> Inr d | Some v \<Rightarrow> Inr v)"
| "py_get _ k d = Inl AttributeError"

text \<open>\<^verbatim>\<open>isinstance(obj, dict)\<close>\<close>

fun is_dict :: "pyval \<Rightarrow> bool" where
  "is_dict (PDict kvs) = True"
| "is_dict _ = False"

text \<open>\<^verbatim>\<open>str.isspace\<close> of one character, and \<^verbatim>\<open>str.strip()\<close>.\<close>

definition py_isspace :: "char \<Rightarrow> bool" where
  "py_isspace c = ((of_char c :: nat) \<in> {9, 10, 11, 12, 13, 28, 29, 30, 31, 32, 133, 160})"

definition py_strip :: "string \<Rightarrow> string" where
  "py_strip s = rev (dropWhile py_isspace (rev (dropWhile py_isspace s)))"

text \<open>\<^verbatim>\<open>obj.strip()\<close>: only a string has the method.\<close>

fun strip_method :: "pyval \<Rightarrow> pyexn + string" where
  "strip_method (PStr s) = Inr (py_strip s)"
| "strip_method _ = Inl AttributeError"

text \<open>\<^verbatim>\<open>str.lower()\<close>: the letters A to Z, and the capital letters of U+00C0 to U+00DE
  (U+00D7, the multiplication sign, is not one).\<close>

definition lower_char :: "char \<Rightarrow> char" where
  "lower_char c =
     (let n = (of_char c :: nat) in
      if (65 \<le> n \<and> n \<le> 90) \<or> (192 \<le> n \<and> n \<le> 222 \<and> n \<noteq> 215) then char_of (n + 32) else c)"

definition py_lower :: "string \<Rightarrow> string" where
  "py_lower s = map lower_char s"

text \<open>The class \<^verbatim>\<open>\d\<close> and the value of a digit.\<close>

definition is_digit :: "char \<Rightarrow> bool" where
  "is_digit c = (48 \<le> (of_char c :: nat) \<and> (of_char c :: nat) \<le> 57)"

definition digit_val :: "char \<Rightarrow> nat" where
  "digit_val c = of_char c - 48"

text \<open>
  \<^verbatim>\<open>int(s)\<close> for a string: surrounding whitespace is dropped, one sign is allowed, then
  come decimal digits, with single underscores allowed between two digits. Anything else
  is a \<^verbatim>\<open>ValueError\<close>. The whitespace of \<^verbatim>\<open>int\<close> is narrower than that of \<^verbatim>\<open>str.strip\<close>:
  the separators U+001C to U+001F are not dropped, so a string that starts or ends with
  one is refused. A string of more digits than \<^verbatim>\<open>sys.int_max_str_digits\<close> is refused as
  well; 4300 is the default of the interpreters that have the limit (3.11, and the
  security releases of the versions before it).
\<close>

definition int_isspace :: "char \<Rightarrow> bool" where
  "int_isspace c = ((of_char c :: nat) \<in> {9, 10, 11, 12, 13, 32, 133, 160})"

definition int_max_str_digits :: nat where
  "int_max_str_digits = 4300"

fun digits_ok :: "string \<Rightarrow> bool" where
  "digits_ok [] = False"
| "digits_ok [c] = is_digit c"
| "digits_ok (c # d # cs) =
     (is_digit c \<and> (if d = CHR ''_'' then digits_ok cs else digits_ok (d # cs)))"

definition digits_value :: "string \<Rightarrow> nat" where
  "digits_value s = foldl (\<lambda>n c. 10 * n + digit_val c) 0 (filter (\<lambda>c. c \<noteq> CHR ''_'') s)"

definition py_int_str :: "string \<Rightarrow> pyexn + int" where
  "py_int_str s =
     (let t = rev (dropWhile int_isspace (rev (dropWhile int_isspace s)));
          neg = (t \<noteq> [] \<and> hd t = CHR ''-'');
          body = (if t \<noteq> [] \<and> (hd t = CHR ''-'' \<or> hd t = CHR ''+'') then tl t else t)
      in if digits_ok body \<and> length (filter (\<lambda>c. c \<noteq> CHR ''_'') body) \<le> int_max_str_digits
         then Inr (if neg then - int (digits_value body) else int (digits_value body))
         else Inl ValueError)"

text \<open>\<^verbatim>\<open>int(x)\<close>: a float is truncated towards zero.\<close>

fun py_int :: "pyval \<Rightarrow> pyexn + int" where
  "py_int (PInt n) = Inr n"
| "py_int (PBool b) = Inr (if b then 1 else 0)"
| "py_int (PFloat (FNum q)) = Inr (if 0 \<le> q then \<lfloor>q\<rfloor> else \<lceil>q\<rceil>)"
| "py_int (PFloat FNan) = Inl ValueError"
| "py_int (PFloat FPosInf) = Inl OverflowError"
| "py_int (PFloat FNegInf) = Inl OverflowError"
| "py_int (PStr s) = py_int_str s"
| "py_int PNone = Inl TypeError"
| "py_int (PList xs) = Inl TypeError"
| "py_int (PDict kvs) = Inl TypeError"

text \<open>
  \<^verbatim>\<open>re.findall(r"(\d{1,3})%?", text)\<close>: the matches from left to right, without overlap.
  At a digit the match takes as many digits as there are, three at most, then a percent
  sign if one follows; the group, the digits, is what the list holds. At any other
  character the scan moves on by one.
\<close>

function findall_num :: "string \<Rightarrow> string list" where
  "findall_num [] = []"
| "findall_num (c # cs) =
     (if is_digit c
      then (let ds = takeWhile is_digit (take 3 (c # cs));
                rest = drop (length ds) (c # cs)
            in ds # findall_num (case rest of [] \<Rightarrow> [] | r # rs \<Rightarrow> if r = CHR ''%'' then rs else rest))
      else findall_num cs)"
  by pat_completeness auto
termination
proof (relation "measure length", goal_cases)
  case 1
  show ?case by simp
next
  case (2 c cs ds rest)
  then have "ds \<noteq> []" by simp
  then have "length rest < length (c # cs)" using 2 by simp
  then show ?case by (auto split: list.splits)
next
  case (3 c cs)
  show ?case by simp
qed

section \<open>Requests, responses and the client\<close>

text \<open>
  What a view function reads from the framework's \<^verbatim>\<open>request\<close>:
  \<^item> \<open>json_force\<close> is \<^verbatim>\<open>request.get_json(force=True)\<close>: the decoded body, or the
    exception the framework raises when the body is not JSON (\<open>BadRequest\<close>);
  \<^item> \<open>json_silent\<close> is \<^verbatim>\<open>request.get_json(silent=True)\<close>: the decoded body, or
    \<^verbatim>\<open>None\<close> when the request is not declared as JSON or does not decode;
  \<^item> \<open>data\<close> is \<^verbatim>\<open>request.data\<close>, the bytes of the body;
  \<^item> \<open>form\<close> and \<open>args\<close> are the form fields and the query-string parameters.
\<close>

record request =
  json_force :: "pyexn + pyval"
  json_silent :: pyval
  data :: string
  form :: "string \<rightharpoonup> string"
  args :: "string \<rightharpoonup> string"

text \<open>\<^verbatim>\<open>mapping.get(key)\<close> of a form or query mapping: the string, or \<^verbatim>\<open>None\<close>.\<close>

definition multidict_get :: "(string \<rightharpoonup> string) \<Rightarrow> string \<Rightarrow> pyval" where
  "multidict_get m k = (case m k of None \<Rightarrow> PNone | Some s \<Rightarrow> PStr s)"

text \<open>
  The dictionary handed to \<^verbatim>\<open>jsonify\<close>, in the order the source writes its keys. A value
  is a Python value, or \<^verbatim>\<open>str(e)\<close> of a caught exception. A view function returns a pair
  of body and status, or an exception leaves it (\<open>Raised\<close>) for the framework to handle.
\<close>

datatype bval = J pyval | StrOf pyexn

type_synonym body = "(string \<times> bval) list"

datatype result = Response body int | Raised pyexn

text \<open>
  \<^verbatim>\<open>openai.ChatCompletion.create(**kwargs)\<close> returns the reply or raises. The view
  functions below return, next to their result, the list of the calls they made to it.
  \<^verbatim>\<open>json.loads\<close> on a string and \<^verbatim>\<open>bytes.decode('utf-8')\<close> are parameters as well.
\<close>

type_synonym kwargs = "(string \<times> pyval) list"

type_synonym client = "kwargs \<Rightarrow> pyexn + pyval"

type_synonym loads = "string \<Rightarrow> pyexn + pyval"

type_synonym decode = "string \<Rightarrow> pyexn + string"

text \<open>\<^verbatim>\<open>json.loads(x)\<close> for any object \<open>x\<close>: only text is decoded.\<close>

fun json_loads :: "loads \<Rightarrow> pyval \<Rightarrow> pyexn + pyval" where
  "json_loads ld (PStr s) = ld s"
| "json_loads ld _ = Inl TypeError"

section \<open>The species endpoint\<close>

definition FUNCTIONS :: pyval where
  "FUNCTIONS = PList [PDict [
     (''name'', PStr ''get_species_info''),
     (''description'', PStr ''Return ideal soil and ambient humidity and whether the species is indoor or outdoor''),
     (''parameters'', PDict [
        (''type'', PStr ''object''),
        (''properties'', PDict [
           (''humedad_tierra'', PDict [(''type'', PStr ''integer''),
              (''description'', PStr ''Ideal soil humidity percentage 0-100'')]),
           (''humedad_ambiente'', PDict [(''type'', PStr ''integer''),
              (''description'', PStr ''Ideal ambient humidity percentage 0-100'')]),
           (''tipo'', PDict [(''type'', PStr ''string''),
              (''enum'', PList [PStr ''interior'', PStr ''exterior'']),
              (''description'', PStr ''indoor or outdoor plant'')])]),
        (''required'', PList [PStr ''humedad_tierra'', PStr ''humedad_ambiente'', PStr ''tipo''])])]]"

definition especie_system :: string where
  "especie_system = ''You are a botanical assistant that gives concise ideal humidity numbers for plant species. Return only plausible numeric values between 0 and 100.''"

definition especie_user :: "string \<Rightarrow> string" where
  "especie_user especie =
     ''Give the ideal soil humidity (%) and ambient humidity (%) and whether the plant is generally interior or exterior for the species: ''
     @ especie
     @ ''. Return via the function get_species_info as integers and the tipo as 'interior' or 'exterior'. If uncertain, choose a conservative value and prefer to mark as 'interior' if ambiguous.''"

definition chat_messages :: "string \<Rightarrow> string \<Rightarrow> pyval" where
  "chat_messages system user =
     PList [PDict [(''role'', PStr ''system''), (''content'', PStr system)],
            PDict [(''role'', PStr ''user''), (''content'', PStr user)]]"

text \<open>The keyword arguments of the call at lines 52 to 59.\<close>

definition especie_kwargs :: "string \<Rightarrow> kwargs" where
  "especie_kwargs especie =
     [(''model'', PStr ''gpt-3.5-turbo-0613''),
      (''messages'', chat_messages especie_system (especie_user especie)),
      (''functions'', FUNCTIONS),
      (''function_call'', PDict [(''name'', PStr ''get_species_info'')]),
      (''temperature'', PFloat (FNum (2 / 10))),
      (''max_tokens'', PInt 200)]"

text \<open>Lines 74 and 75, the same statement for \<^verbatim>\<open>ht\<close> and for \<^verbatim>\<open>ha\<close>.\<close>

definition clamp_humidity :: "int \<Rightarrow> int" where
  "clamp_humidity h =
     (if h < 0 \<or> h > 100 then max 0 (min 100 (if h \<noteq> - 1 then h else 50)) else h)"

text \<open>Line 76.\<close>

definition normal_tipo :: "pyval \<Rightarrow> pyval" where
  "normal_tipo tipo =
     (if tipo \<notin> set [PStr ''interior'', PStr ''exterior''] then PStr ''interior'' else tipo)"

text \<open>
  Lines 68 to 82, the body of the inner \<^verbatim>\<open>try\<close>: the dictionary \<^verbatim>\<open>out\<close>, or the exception
  that the inner \<^verbatim>\<open>except\<close> catches.
\<close>

definition structured_out :: "loads \<Rightarrow> pyval \<Rightarrow> pyexn + body" where
  "structured_out ld func_args =
     (case json_loads ld func_args of Inl e \<Rightarrow> Inl e | Inr a \<Rightarrow>
     (case py_get a ''humedad_tierra'' (PInt (- 1)) of Inl e \<Rightarrow> Inl e | Inr v1 \<Rightarrow>
     (case py_int v1 of Inl e \<Rightarrow> Inl e | Inr ht \<Rightarrow>
     (case py_get a ''humedad_ambiente'' (PInt (- 1)) of Inl e \<Rightarrow> Inl e | Inr v2 \<Rightarrow>
     (case py_int v2 of Inl e \<Rightarrow> Inl e | Inr ha \<Rightarrow>
     (case py_get a ''tipo'' (PStr []) of Inl e \<Rightarrow> Inl e | Inr tipo \<Rightarrow>
        Inr [(''humedad_tierra'', J (PInt (clamp_humidity ht))),
             (''humedad_ambiente'', J (PInt (clamp_humidity ha))),
             (''tipo'', J (normal_tipo tipo))]))))))"

text \<open>Lines 64 to 85: the structured path, which always returns a response.\<close>

definition structured_path :: "loads \<Rightarrow> pyval \<Rightarrow> result" where
  "structured_path ld func_args =
     (case structured_out ld func_args of
        Inr out \<Rightarrow> Response out 200
      | Inl e \<Rightarrow> Response [(''error'', J (PStr ''failed parsing model arguments'')),
                           (''detail'', StrOf e), (''raw'', J func_args)] 500)"

text \<open>
  Lines 88 to 96: the fallback on the text of the reply. \<^verbatim>\<open>re.findall\<close> of an object
  that is not text raises \<^verbatim>\<open>TypeError\<close>.
\<close>

definition fallback_path :: "pyval \<Rightarrow> pyexn + result" where
  "fallback_path choice =
     (case py_getitem choice ''message'' of Inl e \<Rightarrow> Inl e | Inr m \<Rightarrow>
     (case py_get m ''content'' (PStr []) of Inl e \<Rightarrow> Inl e | Inr content \<Rightarrow>
     (case content of
        PStr text \<Rightarrow>
          (let nums = findall_num text in
          (case (if length nums > 0 then py_int_str (nums ! 0) else Inr 50) of Inl e \<Rightarrow> Inl e | Inr ht \<Rightarrow>
          (case (if length nums > 1 then py_int_str (nums ! 1) else Inr 50) of Inl e \<Rightarrow> Inl e | Inr ha \<Rightarrow>
             Inr (Response [(''humedad_tierra'', J (PInt ht)), (''humedad_ambiente'', J (PInt ha)),
                            (''tipo'', J (PStr ''interior'')),
                            (''note'', J (PStr ''extracted from text fallback'')),
                            (''raw_text'', J (PStr text))] 200))))
      | _ \<Rightarrow> Inl TypeError)))"

text \<open>
  Line 63, \<^verbatim>\<open>'message' in choice and choice['message'].get('function_call')\<close>, as the
  \<^verbatim>\<open>if\<close> tests it.
\<close>

definition has_function_call :: "pyval \<Rightarrow> pyexn + bool" where
  "has_function_call choice =
     (case py_contains ''message'' choice of Inl e \<Rightarrow> Inl e
      | Inr False \<Rightarrow> Inr False
      | Inr True \<Rightarrow>
         (case py_getitem choice ''message'' of Inl e \<Rightarrow> Inl e | Inr m \<Rightarrow>
         (case py_get m ''function_call'' PNone of Inl e \<Rightarrow> Inl e | Inr fc \<Rightarrow> Inr (truthy fc))))"

text \<open>Lines 62 and 131: \<^verbatim>\<open>choice = resp['choices'][0]\<close>\<close>

definition first_choice :: "pyval \<Rightarrow> pyexn + pyval" where
  "first_choice resp =
     (case py_getitem resp ''choices'' of Inl e \<Rightarrow> Inl e | Inr choices \<Rightarrow> py_getitem0 choices)"

text \<open>
  Lines 62 to 96, what follows the call inside the outer \<^verbatim>\<open>try\<close>: the response, or the
  exception that the outer \<^verbatim>\<open>except\<close> catches.
\<close>

definition especie_reply :: "loads \<Rightarrow> pyval \<Rightarrow> pyexn + result" where
  "especie_reply ld resp =
     (case first_choice resp of Inl e \<Rightarrow> Inl e | Inr choice \<Rightarrow>
     (case has_function_call choice of Inl e \<Rightarrow> Inl e
      | Inr True \<Rightarrow>
         (case py_getitem choice ''message'' of Inl e \<Rightarrow> Inl e | Inr m \<Rightarrow>
         (case py_getitem m ''function_call'' of Inl e \<Rightarrow> Inl e | Inr fc \<Rightarrow>
         (case py_get fc ''arguments'' PNone of Inl e \<Rightarrow> Inl e | Inr func_args \<Rightarrow>
            Inr (structured_path ld func_args))))
      | Inr False \<Rightarrow> fallback_path choice))"

text \<open>Lines 98 and 99, shared by both endpoints (lines 139 and 140).\<close>

definition openai_failed :: "pyexn \<Rightarrow> result" where
  "openai_failed e =
     Response [(''error'', J (PStr ''openai request failed'')), (''detail'', StrOf e)] 502"

text \<open>
  The view function \<^verbatim>\<open>especie\<close>. Lines 42 and 43 are outside any \<^verbatim>\<open>try\<close>: what they raise
  leaves the function.
\<close>

definition especie :: "loads \<Rightarrow> client \<Rightarrow> request \<Rightarrow> result \<times> kwargs list" where
  "especie ld create req =
     (case json_force req of Inl e \<Rightarrow> (Raised e, []) | Inr dat \<Rightarrow>
     (case py_get dat ''especie'' PNone of Inl e \<Rightarrow> (Raised e, []) | Inr v \<Rightarrow>
     (case strip_method (py_or v (PStr [])) of Inl e \<Rightarrow> (Raised e, []) | Inr especie \<Rightarrow>
      if especie = []
      then (Response [(''error'', J (PStr ''missing 'especie' in JSON body''))] 400, [])
      else (let kw = especie_kwargs especie in
            ((case create kw of Inl e \<Rightarrow> openai_failed e | Inr resp \<Rightarrow>
               (case especie_reply ld resp of Inl e \<Rightarrow> openai_failed e | Inr r \<Rightarrow> r)),
             [kw])))))"

section \<open>The question endpoint\<close>

definition esplanta_system :: string where
  "esplanta_system =
     ''Eres un asistente experto en plantas. Si la pregunta que te hacen est'' @ [CHR 0xE1]
     @ '' relacionada con plantas, jardiner'' @ [CHR 0xED] @ ''a, bot'' @ [CHR 0xE1]
     @ ''nica, cuidados de plantas, especies vegetales, enfermedades de plantas, etc., responde solo con ''
     @ [CHR 0x27, CHR ''s'', CHR 0xED, CHR 0x27]
     @ ''. Si no tiene nada que ver con plantas, responde solo con 'no'. No a'' @ [CHR 0xF1]
     @ ''adas nada m'' @ [CHR 0xE1] @ ''s.''"

definition esplanta_kwargs :: "string \<Rightarrow> kwargs" where
  "esplanta_kwargs pregunta =
     [(''model'', PStr ''gpt-3.5-turbo-0613''),
      (''messages'', chat_messages esplanta_system pregunta),
      (''temperature'', PInt 0),
      (''max_tokens'', PInt 2)]"

text \<open>
  Lines 104 to 112: the dictionary \<^verbatim>\<open>data\<close>. The raw body is decoded only when
  \<^verbatim>\<open>get_json\<close> gave \<^verbatim>\<open>None\<close>; whatever is not a dictionary becomes the empty one.
\<close>

definition esplanta_data :: "loads \<Rightarrow> decode \<Rightarrow> request \<Rightarrow> pyval" where
  "esplanta_data ld dec req =
     (let dat = json_silent req;
          dat = (if dat = PNone
                 then (let raw = data req in
                       if raw \<noteq> []
                       then (case dec raw of Inl e \<Rightarrow> PDict [] | Inr s \<Rightarrow>
                            (case ld (if s \<noteq> [] then s else ''{}'') of Inl e \<Rightarrow> PDict [] | Inr v \<Rightarrow> v))
                       else PDict [])
                 else dat)
      in if \<not> is_dict dat then PDict [] else dat)"

text \<open>Line 114: \<^verbatim>\<open>data.get('pregunta') if isinstance(data, dict) else None\<close>\<close>

definition data_pregunta :: "pyval \<Rightarrow> pyval" where
  "data_pregunta dat =
     (if is_dict dat then (case py_get dat ''pregunta'' PNone of Inl e \<Rightarrow> PNone | Inr v \<Rightarrow> v)
      else PNone)"

text \<open>Lines 113 to 118 before \<^verbatim>\<open>.strip()\<close>: the chain of \<^verbatim>\<open>or\<close>.\<close>

definition pregunta_value :: "loads \<Rightarrow> decode \<Rightarrow> request \<Rightarrow> pyval" where
  "pregunta_value ld dec req =
     (let dat = esplanta_data ld dec req in
      py_or (py_or (py_or
        (data_pregunta dat)
        (multidict_get (form req) ''pregunta''))
        (multidict_get (args req) ''pregunta''))
        (PStr []))"

text \<open>Lines 131 to 138, what follows the call inside the \<^verbatim>\<open>try\<close>.\<close>

definition esplanta_reply :: "pyval \<Rightarrow> pyexn + result" where
  "esplanta_reply resp =
     (case first_choice resp of Inl e \<Rightarrow> Inl e | Inr choice \<Rightarrow>
     (case py_getitem choice ''message'' of Inl e \<Rightarrow> Inl e | Inr m \<Rightarrow>
     (case py_get m ''content'' (PStr []) of Inl e \<Rightarrow> Inl e | Inr content \<Rightarrow>
     (case strip_method content of Inl e \<Rightarrow> Inl e | Inr stripped \<Rightarrow>
        (let text = py_lower stripped in
         if str_contains [CHR ''s'', CHR 0xED] text \<or> str_contains ''si'' text \<or> str_contains ''yes'' text
         then Inr (Response [(''es_planta'', J (PBool True))] 200)
         else if str_contains ''no'' text
         then Inr (Response [(''es_planta'', J (PBool False))] 200)
         else Inr (Response [(''es_planta'', J (PBool False)), (''raw'', J (PStr text))] 200))))))"

text \<open>The view function \<^verbatim>\<open>esplanta\<close>. Line 118 is outside the \<^verbatim>\<open>try\<close>.\<close>

definition esplanta :: "loads \<Rightarrow> decode \<Rightarrow> client \<Rightarrow> request \<Rightarrow> result \<times> kwargs list" where
  "esplanta ld dec create req =
     (case strip_method (pregunta_value ld dec req) of Inl e \<Rightarrow> (Raised e, []) | Inr pregunta \<Rightarrow>
      if pregunta = []
      then (Response [(''error'', J (PStr ''missing 'pregunta' in JSON body''))] 400, [])
      else (let kw = esplanta_kwargs pregunta in
            ((case create kw of Inl e \<Rightarrow> openai_failed e | Inr resp \<Rightarrow>
               (case esplanta_reply resp of Inl e \<Rightarrow> openai_failed e | Inr r \<Rightarrow> r)),
             [kw])))"

section \<open>Test doubles\<close>

text \<open>
  Stand-ins for the parameters, for the concrete runs below: a client that gives the same
  outcome to every call, a JSON decoder given by a table of the texts it decodes (any other
  text is malformed), and the decoder of bytes that are all ASCII.
\<close>

definition const_client :: "pyexn + pyval \<Rightarrow> client" where
  "const_client r kw = r"

definition table_loads :: "(string \<times> pyval) list \<Rightarrow> loads" where
  "table_loads tbl s =
     (case map_of tbl s of None \<Rightarrow> Inl (LibError ''JSONDecodeError'') | Some v \<Rightarrow> Inr v)"

definition ascii_decode :: decode where
  "ascii_decode b =
     (if list_all (\<lambda>c. (of_char c :: nat) < 128) b then Inr b else Inl (LibError ''UnicodeDecodeError''))"

text \<open>A reply carrying text, and a reply carrying a function call with the given arguments.\<close>

definition text_reply :: "string \<Rightarrow> pyval" where
  "text_reply t =
     PDict [(''choices'', PList [PDict [(''index'', PInt 0),
        (''message'', PDict [(''role'', PStr ''assistant''), (''content'', PStr t)]),
        (''finish_reason'', PStr ''stop'')]])]"

definition call_message :: "pyval \<Rightarrow> pyval" where
  "call_message a =
     PDict [(''role'', PStr ''assistant''), (''content'', PNone),
            (''function_call'', PDict [(''name'', PStr ''get_species_info''), (''arguments'', a)])]"

definition call_reply :: "pyval \<Rightarrow> pyval" where
  "call_reply a =
     PDict [(''choices'', PList [PDict [(''index'', PInt 0), (''message'', call_message a),
                                        (''finish_reason'', PStr ''stop'')]])]"

text \<open>
  A request declared as JSON whose body decodes to \<open>v\<close>, with no form field and no query
  parameter. (Neither endpoint reads the bytes of such a request.)
\<close>

definition json_request :: "pyval \<Rightarrow> request" where
  "json_request v =
     \<lparr>json_force = Inr v, json_silent = v, data = [], form = Map.empty, args = Map.empty\<rparr>"

definition ficus_request :: request where
  "ficus_request = json_request (PDict [(''especie'', PStr ''Ficus'')])"

definition payload_30_70 :: string where
  \<open>payload_30_70 = ''{"humedad_tierra":30,"humedad_ambiente":70,"tipo":"exterior"}''\<close>

definition payload_truncated :: string where
  \<open>payload_truncated = ''{"humedad_tierra":30,"humedad_amb''\<close>

definition payload_missing :: string where
  \<open>payload_missing = ''{"humedad_ambiente":70,"tipo":"exterior"}''\<close>

definition payload_minus_one :: string where
  \<open>payload_minus_one = ''{"humedad_tierra":-1,"humedad_ambiente":70,"tipo":"exterior"}''\<close>

definition payload_minus_five :: string where
  \<open>payload_minus_five = ''{"humedad_tierra":-5,"humedad_ambiente":70,"tipo":"exterior"}''\<close>

definition payload_pregunta :: string where
  \<open>payload_pregunta = ''{"pregunta": " rosa "}''\<close>

definition demo_loads :: loads where
  "demo_loads = table_loads
     [(payload_30_70, PDict [(''humedad_tierra'', PInt 30), (''humedad_ambiente'', PInt 70),
                             (''tipo'', PStr ''exterior'')]),
      (payload_missing, PDict [(''humedad_ambiente'', PInt 70), (''tipo'', PStr ''exterior'')]),
      (payload_minus_one, PDict [(''humedad_tierra'', PInt (- 1)), (''humedad_ambiente'', PInt 70),
                                 (''tipo'', PStr ''exterior'')]),
      (payload_minus_five, PDict [(''humedad_tierra'', PInt (- 5)), (''humedad_ambiente'', PInt 70),
                                  (''tipo'', PStr ''exterior'')]),
      (payload_pregunta, PDict [(''pregunta'', PStr '' rosa '')])]"

text \<open>
  The text of the affirmative answer, plain and as a model may write it; and requests: a
  JSON body with a question; a request with no body, no form field and no query parameter;
  a JSON body whose \<^verbatim>\<open>pregunta\<close> is two spaces, with a query parameter; a form whose
  \<^verbatim>\<open>pregunta\<close> is empty, with a query parameter; a body that is JSON but not declared
  as such, so that only its bytes are there, with a query parameter.
\<close>

definition yes_text :: string where
  "yes_text = [CHR ''s'', CHR 0xED]"


definition ficus_question :: request where
  "ficus_question = json_request (PDict [(''pregunta'', PStr ''How often do I water a ficus?'')])"

definition empty_request :: request where
  "empty_request = \<lparr>json_force = Inl BadRequest, json_silent = PNone, data = [],
                     form = Map.empty, args = Map.empty\<rparr>"

definition blank_json_rose_query :: request where
  "blank_json_rose_query =
     \<lparr>json_force = Inr (PDict [(''pregunta'', PStr ''  '')]),
      json_silent = PDict [(''pregunta'', PStr ''  '')], data = [],
      form = Map.empty, args = [''pregunta'' \<mapsto> ''rosa'']\<rparr>"

definition empty_form_rose_query :: request where
  "empty_form_rose_query =
     \<lparr>json_force = Inl BadRequest, json_silent = PNone, data = [],
      form = [''pregunta'' \<mapsto> []], args = [''pregunta'' \<mapsto> '' rosa '']\<rparr>"

definition undeclared_json_request :: request where
  "undeclared_json_request =
     \<lparr>json_force = Inr (PDict [(''pregunta'', PStr '' rosa '')]), json_silent = PNone,
      data = payload_pregunta, form = Map.empty, args = [''pregunta'' \<mapsto> ''clavel'']\<rparr>"

section \<open>Vocabulary of the properties\<close>

text \<open>
  A field that is absent (\<^verbatim>\<open>.get\<close> gave \<^verbatim>\<open>None\<close>), empty, or blank after trimming.
\<close>

fun blank_field :: "pyval \<Rightarrow> bool" where
  "blank_field (PStr s) = (py_strip s = [])"
| "blank_field v = (\<not> truthy v)"

text \<open>The first value of a list that is not empty (that is true), or the empty string.\<close>

definition first_nonempty :: "pyval list \<Rightarrow> pyval" where
  "first_nonempty vs = (case filter truthy vs of [] \<Rightarrow> PStr [] | v # _ \<Rightarrow> v)"

section \<open>Properties of the library operations\<close>

lemma str_contains_iff: "str_contains sub s \<longleftrightarrow> (\<exists>pre post. s = pre @ sub @ post)"
proof (induction s)
  case Nil
  then show ?case by auto
next
  case (Cons c cs)
  show ?case
  proof
    assume "str_contains sub (c # cs)"
    then consider "take (length sub) (c # cs) = sub" | "str_contains sub cs" by auto
    then show "\<exists>pre post. c # cs = pre @ sub @ post"
    proof cases
      case 1
      then have "c # cs = [] @ sub @ drop (length sub) (c # cs)"
        by (metis append_Nil append_take_drop_id)
      then show ?thesis by blast
    next
      case 2
      with Cons.IH obtain pre post where "cs = pre @ sub @ post" by blast
      then have "c # cs = (c # pre) @ sub @ post" by simp
      then show ?thesis by blast
    qed
  next
    assume "\<exists>pre post. c # cs = pre @ sub @ post"
    then obtain pre post where eq: "c # cs = pre @ sub @ post" by blast
    show "str_contains sub (c # cs)"
    proof (cases pre)
      case Nil
      with eq have "take (length sub) (c # cs) = sub" by simp
      then show ?thesis by simp
    next
      case (Cons p ps)
      with eq have "cs = ps @ sub @ post" by simp
      with Cons.IH have "str_contains sub cs" by blast
      then show ?thesis by simp
    qed
  qed
qed

lemma findall_num_digits:
  "d \<in> set (findall_num s) \<Longrightarrow> d \<noteq> [] \<and> length d \<le> 3 \<and> list_all is_digit d"
proof (induction s rule: findall_num.induct)
  case 1
  then show ?case by simp
next
  case (2 c cs)
  show ?case
  proof (cases "is_digit c")
    case True
    define ds where "ds = takeWhile is_digit (take 3 (c # cs))"
    define rest where "rest = drop (length ds) (c # cs)"
    have "findall_num (c # cs) = ds # findall_num (case rest of [] \<Rightarrow> [] | r # rs \<Rightarrow> if r = CHR ''%'' then rs else rest)"
      unfolding ds_def rest_def using True by (simp only: findall_num.simps Let_def if_True)
    with 2(3) have "d = ds \<or> d \<in> set (findall_num (case rest of [] \<Rightarrow> [] | r # rs \<Rightarrow> if r = CHR ''%'' then rs else rest))"
      by (simp del: findall_num.simps)
    then show ?thesis
    proof
      assume "d = ds"
      have "length ds \<le> length (take 3 (c # cs))" unfolding ds_def by (rule length_takeWhile_le)
      then have "length ds \<le> 3" by simp
      moreover have "ds \<noteq> []" using True by (simp add: ds_def)
      moreover have "list_all is_digit ds" unfolding ds_def list_all_iff
        by (auto dest: set_takeWhileD)
      ultimately show ?thesis using \<open>d = ds\<close> by simp
    next
      assume "d \<in> set (findall_num (case rest of [] \<Rightarrow> [] | r # rs \<Rightarrow> if r = CHR ''%'' then rs else rest))"
      then show ?thesis using 2(1) [OF True ds_def rest_def] by (simp del: findall_num.simps)
    qed
  next
    case False
    with 2 show ?thesis by simp
  qed
qed

text \<open>
  What a match is: characters that are not digits are passed over; a run of one to three
  digits that is followed by no further digit, or that has three digits already, is the
  next match, and the scan goes on behind it and behind the percent sign that may follow.
\<close>

lemma findall_num_skip:
  "list_all (\<lambda>c. \<not> is_digit c) pre \<Longrightarrow> findall_num (pre @ s) = findall_num s"
  by (induction pre) simp_all

lemma findall_num_match:
  assumes "ds \<noteq> []" and "list_all is_digit ds" and "length ds \<le> 3"
    and "length ds = 3 \<or> rest = [] \<or> \<not> is_digit (hd rest)"
  shows "findall_num (ds @ rest) =
     ds # findall_num (case rest of [] \<Rightarrow> [] | r # rs \<Rightarrow> if r = CHR ''%'' then rs else rest)"
proof -
  obtain c cs where ds: "ds = c # cs" using assms(1) by (cases ds) auto
  have t: "takeWhile is_digit (take 3 (ds @ rest)) = ds"
  proof (cases "length ds = 3")
    case True
    then have "take 3 (ds @ rest) = ds" by simp
    then show ?thesis using assms(2) by (simp add: list_all_iff)
  next
    case False
    then have l: "length ds < 3" using assms(3) by simp
    have r: "rest = [] \<or> \<not> is_digit (hd rest)" using assms(4) False by simp
    have "take 3 (ds @ rest) = ds @ take (3 - length ds) rest" using l by simp
    moreover have "takeWhile is_digit (ds @ take (3 - length ds) rest) = ds"
    proof (cases rest)
      case Nil
      then show ?thesis using assms(2) by (simp add: list_all_iff)
    next
      case (Cons x xs)
      with r have "\<not> is_digit x" by simp
      moreover from l obtain k where "3 - length ds = Suc k" by (cases "3 - length ds") auto
      ultimately show ?thesis using assms(2) Cons by (simp add: list_all_iff takeWhile_append2)
    qed
    ultimately show ?thesis by simp
  qed
  have c: "is_digit c" using assms(2) ds by simp
  have t': "takeWhile is_digit (take 3 (c # cs @ rest)) = c # cs"
    using t unfolding ds by (simp only: append_Cons)
  have d: "drop (length (c # cs)) (c # cs @ rest) = rest"
    by simp
  have "findall_num (c # cs @ rest) =
      (let ds' = takeWhile is_digit (take 3 (c # cs @ rest)); rest' = drop (length ds') (c # cs @ rest)
       in ds' # findall_num (case rest' of [] \<Rightarrow> [] | r # rs \<Rightarrow> if r = CHR ''%'' then rs else rest'))"
    using c by (simp only: findall_num.simps if_True)
  then have "findall_num (c # cs @ rest) =
      (c # cs) # findall_num (case rest of [] \<Rightarrow> [] | r # rs \<Rightarrow> if r = CHR ''%'' then rs else rest)"
    unfolding Let_def t' d .
  then show ?thesis unfolding ds by (simp only: append_Cons)
qed

lemma not_space_digit: "is_digit c \<Longrightarrow> \<not> int_isspace c"
  by (auto simp: is_digit_def int_isspace_def)

lemma int_strip_digits:
  assumes "d \<noteq> []" and "list_all is_digit d"
  shows "rev (dropWhile int_isspace (rev (dropWhile int_isspace d))) = d"
proof -
  have h: "\<not> int_isspace (hd d)" using assms by (cases d) (auto simp: not_space_digit)
  have l: "\<not> int_isspace (hd (rev d))" using assms
    by (simp add: hd_rev list_all_iff not_space_digit)
  from h have "dropWhile int_isspace d = d" by (simp add: dropWhile_eq_self_iff)
  moreover from l have "dropWhile int_isspace (rev d) = rev d" by (simp add: dropWhile_eq_self_iff)
  ultimately show ?thesis by simp
qed

lemma digits_ok_all: "d \<noteq> [] \<Longrightarrow> list_all is_digit d \<Longrightarrow> digits_ok d"
proof (induction d rule: digits_ok.induct)
  case (3 c d cs)
  then have "d \<noteq> CHR ''_''" by (auto simp: is_digit_def)
  with 3 show ?case by simp
qed simp_all

lemma py_int_str_digits:
  assumes "d \<noteq> []" and "list_all is_digit d" and "length d \<le> int_max_str_digits"
  shows "py_int_str d = Inr (int (digits_value d))"
proof -
  have "is_digit (hd d)" using assms by (cases d) auto
  then have s: "hd d \<noteq> CHR ''-''" "hd d \<noteq> CHR ''+''" by (auto simp: is_digit_def)
  have "length (filter (\<lambda>c. c \<noteq> CHR ''_'') d) \<le> length d" by (rule length_filter_le)
  then have l: "length (filter (\<lambda>c. c \<noteq> CHR ''_'') d) \<le> int_max_str_digits"
    using assms(3) by (rule order_trans)
  show ?thesis
    using assms(1,2) s l
    by (simp add: py_int_str_def int_strip_digits digits_ok_all Let_def)
qed

text \<open>A separator in front of the digits: \<^verbatim>\<open>strip\<close> drops it, \<^verbatim>\<open>int\<close> refuses the string.\<close>

lemma int_refuses_separator:
  "py_strip [CHR 0x1C, CHR ''4'', CHR ''2''] = ''42''
   \<and> py_int_str [CHR 0x1C, CHR ''4'', CHR ''2''] = Inl ValueError
   \<and> py_int_str [CHR 0xA0, CHR ''4'', CHR ''2'', CHR '' ''] = Inr 42"
  by code_simp

section \<open>Properties of the species endpoint\<close>

lemma py_strip_nonempty: "py_strip s \<noteq> [] \<Longrightarrow> s \<noteq> []"
  by (auto simp: py_strip_def)

lemma especie_call:
  assumes "json_force req = Inr (PDict kvs)" and "map_of kvs ''especie'' = Some (PStr s)"
    and "py_strip s \<noteq> []"
  shows "especie ld create req =
    ((case create (especie_kwargs (py_strip s)) of Inl e \<Rightarrow> openai_failed e
      | Inr resp \<Rightarrow> (case especie_reply ld resp of Inl e \<Rightarrow> openai_failed e | Inr r \<Rightarrow> r)),
     [especie_kwargs (py_strip s)])"
  using assms py_strip_nonempty [OF assms(3)] by (simp add: especie_def py_or_def Let_def)

lemma especie_reply_structured:
  assumes "first_choice resp = Inr (PDict ch)" and "map_of ch ''message'' = Some (PDict m)"
    and "map_of m ''function_call'' = Some (PDict fc)" and "fc \<noteq> []"
  shows "especie_reply ld resp =
     Inr (structured_path ld (case map_of fc ''arguments'' of None \<Rightarrow> PNone | Some a \<Rightarrow> a))"
  using assms by (simp add: especie_reply_def has_function_call_def split: option.splits)

lemma clamp_humidity_id: "0 \<le> h \<Longrightarrow> h \<le> 100 \<Longrightarrow> clamp_humidity h = h"
  by (simp add: clamp_humidity_def)

lemma clamp_humidity_range: "0 \<le> clamp_humidity h \<and> clamp_humidity h \<le> 100"
  by (simp add: clamp_humidity_def)

lemma structured_out_range:
  assumes "structured_out ld a = Inr out"
  shows "\<exists>ht ha t. out = [(''humedad_tierra'', J (PInt ht)), (''humedad_ambiente'', J (PInt ha)),
                            (''tipo'', J (PStr t))]
     \<and> 0 \<le> ht \<and> ht \<le> 100 \<and> 0 \<le> ha \<and> ha \<le> 100 \<and> (t = ''interior'' \<or> t = ''exterior'')"
  using assms clamp_humidity_range
  by (auto simp: structured_out_def normal_tipo_def split: sum.splits if_splits)

lemma especie_reply_text:
  assumes "first_choice resp = Inr (PDict ch)" and "map_of ch ''message'' = Some (PDict m)"
    and "\<not> truthy (case map_of m ''function_call'' of None \<Rightarrow> PNone | Some v \<Rightarrow> v)"
  shows "especie_reply ld resp = fallback_path (PDict ch)"
  using assms by (simp add: especie_reply_def has_function_call_def split: option.splits)

lemma fallback_numbers:
  "(if length (findall_num text) > 0 then py_int_str (findall_num text ! 0) else Inr 50)
     = Inr (case findall_num text of [] \<Rightarrow> 50 | d # _ \<Rightarrow> int (digits_value d))"
  "(if length (findall_num text) > 1 then py_int_str (findall_num text ! 1) else Inr 50)
     = Inr (case findall_num text of d # e # _ \<Rightarrow> int (digits_value e) | _ \<Rightarrow> 50)"
proof -
  have d: "py_int_str d = Inr (int (digits_value d))" if "d \<in> set (findall_num text)" for d
  proof -
    from that have "d \<noteq> [] \<and> length d \<le> 3 \<and> list_all is_digit d"
      by (rule findall_num_digits)
    then show ?thesis
      by (intro py_int_str_digits) (simp_all add: int_max_str_digits_def)
  qed
  show "(if length (findall_num text) > 0 then py_int_str (findall_num text ! 0) else Inr 50)
     = Inr (case findall_num text of [] \<Rightarrow> 50 | d # _ \<Rightarrow> int (digits_value d))"
    using d by (cases "findall_num text") auto
  show "(if length (findall_num text) > 1 then py_int_str (findall_num text ! 1) else Inr 50)
     = Inr (case findall_num text of d # e # _ \<Rightarrow> int (digits_value e) | _ \<Rightarrow> 50)"
    using d by (cases "findall_num text"; cases "tl (findall_num text)") auto
qed

lemma fallback_path_text:
  assumes "map_of ch ''message'' = Some (PDict m)" and "map_of m ''content'' = Some (PStr text)"
  shows "fallback_path (PDict ch) =
     Inr (Response [(''humedad_tierra'', J (PInt (case findall_num text of [] \<Rightarrow> 50 | d # _ \<Rightarrow> int (digits_value d)))),
                    (''humedad_ambiente'', J (PInt (case findall_num text of d # e # _ \<Rightarrow> int (digits_value e) | _ \<Rightarrow> 50))),
                    (''tipo'', J (PStr ''interior'')),
                    (''note'', J (PStr ''extracted from text fallback'')),
                    (''raw_text'', J (PStr text))] 200)"
  unfolding fallback_path_def Let_def fallback_numbers using assms by simp

lemma structured_out_dict:
  assumes "ld s = Inr (PDict a)"
  shows "structured_out ld (PStr s) =
     (case py_int (case map_of a ''humedad_tierra'' of None \<Rightarrow> PInt (- 1) | Some v \<Rightarrow> v) of Inl e \<Rightarrow> Inl e | Inr ht \<Rightarrow>
     (case py_int (case map_of a ''humedad_ambiente'' of None \<Rightarrow> PInt (- 1) | Some v \<Rightarrow> v) of Inl e \<Rightarrow> Inl e | Inr ha \<Rightarrow>
        Inr [(''humedad_tierra'', J (PInt (clamp_humidity ht))),
             (''humedad_ambiente'', J (PInt (clamp_humidity ha))),
             (''tipo'', J (normal_tipo (case map_of a ''tipo'' of None \<Rightarrow> PStr [] | Some v \<Rightarrow> v)))]))"
  using assms by (simp add: structured_out_def split: option.splits sum.splits)


lemma structured_out_cong:
  assumes "ld s1 = Inr (PDict a1)" and "ld s2 = Inr (PDict a2)"
    and "(case map_of a1 ''humedad_tierra'' of None \<Rightarrow> PInt (- 1) | Some v \<Rightarrow> v)
       = (case map_of a2 ''humedad_tierra'' of None \<Rightarrow> PInt (- 1) | Some v \<Rightarrow> v)"
    and "(case map_of a1 ''humedad_ambiente'' of None \<Rightarrow> PInt (- 1) | Some v \<Rightarrow> v)
       = (case map_of a2 ''humedad_ambiente'' of None \<Rightarrow> PInt (- 1) | Some v \<Rightarrow> v)"
    and "map_of a1 ''tipo'' = map_of a2 ''tipo''"
  shows "structured_out ld (PStr s1) = structured_out ld (PStr s2)"
  unfolding structured_out_dict [of ld s1 a1, OF assms(1)] structured_out_dict [of ld s2 a2, OF assms(2)]
    assms(3) assms(4) assms(5) by (rule refl)

lemma structured_path_value:
  assumes "ld s = Inr (PDict a)" and "k = ''humedad_tierra'' \<or> k = ''humedad_ambiente''"
    and "(case map_of a k of None \<Rightarrow> PInt (- 1) | Some v \<Rightarrow> v) = PInt n"
    and "structured_path ld (PStr s) = Response out 200"
  shows "map_of out k = Some (J (PInt (clamp_humidity n)))"
proof -
  from assms(4) have "structured_out ld (PStr s) = Inr out"
    by (simp add: structured_path_def split: sum.splits)
  then show ?thesis
    unfolding structured_out_dict [of ld s a, OF assms(1)]
    using assms(2,3) by (auto split: sum.splits)
qed

section \<open>The claims about the species endpoint\<close>

text \<open>
  Claim C1. The claim: every humidity value in a 200 response of \<^verbatim>\<open>/especie\<close> lies in
  0..100, on the structured path and on the text-fallback path. The structured path
  clamps (lines 74 and 75, lemma \<open>structured_out_range\<close>); the fallback path emits the
  number it read from the text as it is (lines 92 and 93). Here the reply is the text
  \<^verbatim>\<open>Water 500 ml weekly\<close>: the response has status 200 and \<^verbatim>\<open>humedad_tierra\<close> 500.
\<close>

theorem fallback_emits_500:
  "especie (table_loads []) (const_client (Inr (text_reply ''Water 500 ml weekly''))) ficus_request =
     (Response [(''humedad_tierra'', J (PInt 500)), (''humedad_ambiente'', J (PInt 50)),
                (''tipo'', J (PStr ''interior'')),
                (''note'', J (PStr ''extracted from text fallback'')),
                (''raw_text'', J (PStr ''Water 500 ml weekly''))] 200,
      [especie_kwargs ''Ficus''])"
  by code_simp

text \<open>
  Claim C3. The claim: no failure leaves a view function as an exception. A request to
  \<^verbatim>\<open>/especie\<close> whose body is the JSON array \<^verbatim>\<open>[1]\<close> raises \<^verbatim>\<open>AttributeError\<close> at line 43,
  outside any \<^verbatim>\<open>try\<close>, and so does a request to \<^verbatim>\<open>/esplanta\<close> whose body is
  \<^verbatim>\<open>{"pregunta": 5}\<close>, at line 118. The client is not called in either run.
\<close>

theorem non_object_body_raises:
  "especie (table_loads []) (const_client (Inl (LibError ''not reached'')))
       (json_request (PList [PInt 1])) = (Raised AttributeError, [])
   \<and> esplanta (table_loads []) ascii_decode (const_client (Inl (LibError ''not reached'')))
       (json_request (PDict [(''pregunta'', PInt 5)])) = (Raised AttributeError, [])"
  by code_simp

text \<open>
  Claim C6. When the request names a species, the client replies with a function call
  whose arguments decode to an object with \<^verbatim>\<open>humedad_tierra\<close> and \<^verbatim>\<open>humedad_ambiente\<close>
  integers in 0..100 and \<^verbatim>\<open>tipo\<close> one of \<^verbatim>\<open>interior\<close> and \<^verbatim>\<open>exterior\<close>, the response is
  exactly these three values, with status 200.
\<close>

theorem valid_payload_unchanged:
  assumes "json_force req = Inr (PDict kvs)" and "map_of kvs ''especie'' = Some (PStr sp)"
    and "py_strip sp \<noteq> []"
    and "create (especie_kwargs (py_strip sp)) = Inr resp"
    and "first_choice resp = Inr (PDict ch)" and "map_of ch ''message'' = Some (PDict m)"
    and "map_of m ''function_call'' = Some (PDict fc)"
    and "map_of fc ''arguments'' = Some (PStr s)"
    and "ld s = Inr (PDict a)"
    and "map_of a ''humedad_tierra'' = Some (PInt ht)" and "0 \<le> ht" and "ht \<le> 100"
    and "map_of a ''humedad_ambiente'' = Some (PInt ha)" and "0 \<le> ha" and "ha \<le> 100"
    and "map_of a ''tipo'' = Some (PStr t)" and "t = ''interior'' \<or> t = ''exterior''"
  shows "fst (especie ld create req) =
     Response [(''humedad_tierra'', J (PInt ht)), (''humedad_ambiente'', J (PInt ha)),
               (''tipo'', J (PStr t))] 200"
proof -
  from assms(8) have fc: "fc \<noteq> []" by auto
  have out: "structured_out ld (PStr s) =
      Inr [(''humedad_tierra'', J (PInt ht)), (''humedad_ambiente'', J (PInt ha)), (''tipo'', J (PStr t))]"
    using assms(9-17) by (auto simp: structured_out_def clamp_humidity_id normal_tipo_def)
  have "especie_reply ld resp = Inr (structured_path ld (PStr s))"
    using especie_reply_structured [OF assms(5,6,7) fc] assms(8) by simp
  then show ?thesis
    using especie_call [OF assms(1,2,3)] assms(4) out by (simp add: structured_path_def)
qed

text \<open>
  The example of the claim: the payload with 30, 70 and \<^verbatim>\<open>exterior\<close> comes back unchanged.
\<close>

theorem valid_payload_unchanged_witness:
  "fst (especie demo_loads (const_client (Inr (call_reply (PStr payload_30_70)))) ficus_request) =
     Response [(''humedad_tierra'', J (PInt 30)), (''humedad_ambiente'', J (PInt 70)),
               (''tipo'', J (PStr ''exterior''))] 200"
proof (rule valid_payload_unchanged [where kvs = "[(''especie'', PStr ''Ficus'')]" and sp = "''Ficus''"
      and resp = "call_reply (PStr payload_30_70)"
      and ch = "[(''index'', PInt 0), (''message'', call_message (PStr payload_30_70)),
                 (''finish_reason'', PStr ''stop'')]"
      and m = "[(''role'', PStr ''assistant''), (''content'', PNone),
                (''function_call'', PDict [(''name'', PStr ''get_species_info''),
                                           (''arguments'', PStr payload_30_70)])]"
      and fc = "[(''name'', PStr ''get_species_info''), (''arguments'', PStr payload_30_70)]"
      and s = payload_30_70
      and a = "[(''humedad_tierra'', PInt 30), (''humedad_ambiente'', PInt 70),
                (''tipo'', PStr ''exterior'')]"])
  show "json_force ficus_request = Inr (PDict [(''especie'', PStr ''Ficus'')])"
    by (simp add: ficus_request_def json_request_def)
  show "py_strip ''Ficus'' \<noteq> []"
    by code_simp
  show "const_client (Inr (call_reply (PStr payload_30_70))) (especie_kwargs (py_strip ''Ficus''))
      = Inr (call_reply (PStr payload_30_70))"
    by (simp add: const_client_def)
  show "first_choice (call_reply (PStr payload_30_70)) =
      Inr (PDict [(''index'', PInt 0), (''message'', call_message (PStr payload_30_70)),
                  (''finish_reason'', PStr ''stop'')])"
    by (simp add: call_reply_def first_choice_def)
  show "demo_loads payload_30_70 =
      Inr (PDict [(''humedad_tierra'', PInt 30), (''humedad_ambiente'', PInt 70),
                  (''tipo'', PStr ''exterior'')])"
    by (simp add: demo_loads_def table_loads_def)
qed (simp_all add: call_message_def)

text \<open>
  Claim C8. When the request names a species and the client replies with a function call
  whose arguments are text that \<^verbatim>\<open>json.loads\<close> rejects, the response has status 500, the
  error \<^verbatim>\<open>failed parsing model arguments\<close>, a detail (the text of the decoder's
  exception) and the raw arguments; no default value stands in.
\<close>

theorem malformed_arguments_500:
  assumes "json_force req = Inr (PDict kvs)" and "map_of kvs ''especie'' = Some (PStr sp)"
    and "py_strip sp \<noteq> []"
    and "create (especie_kwargs (py_strip sp)) = Inr resp"
    and "first_choice resp = Inr (PDict ch)" and "map_of ch ''message'' = Some (PDict m)"
    and "map_of m ''function_call'' = Some (PDict fc)"
    and "map_of fc ''arguments'' = Some (PStr s)"
    and "ld s = Inl e"
  shows "fst (especie ld create req) =
     Response [(''error'', J (PStr ''failed parsing model arguments'')),
               (''detail'', StrOf e), (''raw'', J (PStr s))] 500"
proof -
  from assms(8) have fc: "fc \<noteq> []" by auto
  have "especie_reply ld resp = Inr (structured_path ld (PStr s))"
    using especie_reply_structured [OF assms(5,6,7) fc] assms(8) by simp
  then show ?thesis
    using especie_call [OF assms(1,2,3)] assms(4,9)
    by (simp add: structured_path_def structured_out_def)
qed

text \<open>A payload cut off in the middle is answered with 500 and comes back under \<^verbatim>\<open>raw\<close>.\<close>

theorem malformed_arguments_500_witness:
  "fst (especie demo_loads (const_client (Inr (call_reply (PStr payload_truncated)))) ficus_request) =
     Response [(''error'', J (PStr ''failed parsing model arguments'')),
               (''detail'', StrOf (LibError ''JSONDecodeError'')),
               (''raw'', J (PStr payload_truncated))] 500"
proof (rule malformed_arguments_500 [where kvs = "[(''especie'', PStr ''Ficus'')]" and sp = "''Ficus''"
      and resp = "call_reply (PStr payload_truncated)"
      and ch = "[(''index'', PInt 0), (''message'', call_message (PStr payload_truncated)),
                 (''finish_reason'', PStr ''stop'')]"
      and m = "[(''role'', PStr ''assistant''), (''content'', PNone),
                (''function_call'', PDict [(''name'', PStr ''get_species_info''),
                                           (''arguments'', PStr payload_truncated)])]"
      and fc = "[(''name'', PStr ''get_species_info''), (''arguments'', PStr payload_truncated)]"])
  show "json_force ficus_request = Inr (PDict [(''especie'', PStr ''Ficus'')])"
    by (simp add: ficus_request_def json_request_def)
  show "py_strip ''Ficus'' \<noteq> []"
    by code_simp
  show "const_client (Inr (call_reply (PStr payload_truncated))) (especie_kwargs (py_strip ''Ficus''))
      = Inr (call_reply (PStr payload_truncated))"
    by (simp add: const_client_def)
  show "first_choice (call_reply (PStr payload_truncated)) =
      Inr (PDict [(''index'', PInt 0), (''message'', call_message (PStr payload_truncated)),
                  (''finish_reason'', PStr ''stop'')])"
    by (simp add: call_reply_def first_choice_def)
  show "demo_loads payload_truncated = Inl (LibError ''JSONDecodeError'')"
    by code_simp
qed (simp_all add: call_message_def)

text \<open>
  Claim C5. When the request names a species and the first choice of the reply has a
  message with no function call (none, or an empty one) and the text \<open>content\<close>, the
  response has status 200; \<^verbatim>\<open>humedad_tierra\<close> is the first match of one to three digits
  in the text and \<^verbatim>\<open>humedad_ambiente\<close> the second, in the order of the text, each 50
  when there is no such match; \<^verbatim>\<open>tipo\<close> is \<^verbatim>\<open>interior\<close>; the note and the text itself are
  attached. Every match is one to three digits. (The list of matches is \<open>findall_num\<close>;
  the lemmas \<open>findall_num_skip\<close> and \<open>findall_num_match\<close> above say what it holds.)
\<close>

theorem text_fallback:
  assumes "json_force req = Inr (PDict kvs)" and "map_of kvs ''especie'' = Some (PStr sp)"
    and "py_strip sp \<noteq> []"
    and "create (especie_kwargs (py_strip sp)) = Inr resp"
    and "first_choice resp = Inr (PDict ch)" and "map_of ch ''message'' = Some (PDict m)"
    and "\<not> truthy (case map_of m ''function_call'' of None \<Rightarrow> PNone | Some v \<Rightarrow> v)"
    and "map_of m ''content'' = Some (PStr content)"
  shows "fst (especie ld create req) =
     Response [(''humedad_tierra'', J (PInt (case findall_num content of [] \<Rightarrow> 50 | d # _ \<Rightarrow> int (digits_value d)))),
               (''humedad_ambiente'', J (PInt (case findall_num content of d # e # _ \<Rightarrow> int (digits_value e) | _ \<Rightarrow> 50))),
               (''tipo'', J (PStr ''interior'')),
               (''note'', J (PStr ''extracted from text fallback'')),
               (''raw_text'', J (PStr content))] 200
     \<and> (\<forall>d \<in> set (findall_num content). d \<noteq> [] \<and> length d \<le> 3 \<and> list_all is_digit d)"
proof
  have "especie_reply ld resp = fallback_path (PDict ch)"
    using especie_reply_text [OF assms(5,6,7)] .
  then show "fst (especie ld create req) =
     Response [(''humedad_tierra'', J (PInt (case findall_num content of [] \<Rightarrow> 50 | d # _ \<Rightarrow> int (digits_value d)))),
               (''humedad_ambiente'', J (PInt (case findall_num content of d # e # _ \<Rightarrow> int (digits_value e) | _ \<Rightarrow> 50))),
               (''tipo'', J (PStr ''interior'')),
               (''note'', J (PStr ''extracted from text fallback'')),
               (''raw_text'', J (PStr content))] 200"
    using especie_call [OF assms(1,2,3)] assms(4) fallback_path_text [OF assms(6,8)] by simp
  show "\<forall>d \<in> set (findall_num content). d \<noteq> [] \<and> length d \<le> 3 \<and> list_all is_digit d"
    using findall_num_digits by blast
qed

text \<open>The example of the claim: 40 and 60 are read from the text.\<close>

theorem text_fallback_witness:
  "fst (especie demo_loads (const_client (Inr (text_reply ''Needs about 40% soil and 60% ambient'')))
        ficus_request) =
     Response [(''humedad_tierra'', J (PInt 40)), (''humedad_ambiente'', J (PInt 60)),
               (''tipo'', J (PStr ''interior'')),
               (''note'', J (PStr ''extracted from text fallback'')),
               (''raw_text'', J (PStr ''Needs about 40% soil and 60% ambient''))] 200"
proof -
  have j: "json_force ficus_request = Inr (PDict [(''especie'', PStr ''Ficus'')])"
    by (simp add: ficus_request_def json_request_def)
  have k: "map_of [(''especie'', PStr ''Ficus'')] ''especie'' = Some (PStr ''Ficus'')"
    by simp
  have s: "py_strip ''Ficus'' \<noteq> []"
    by code_simp
  have c: "const_client (Inr (text_reply ''Needs about 40% soil and 60% ambient''))
      (especie_kwargs (py_strip ''Ficus'')) = Inr (text_reply ''Needs about 40% soil and 60% ambient'')"
    by (simp add: const_client_def)
  have f: "first_choice (text_reply ''Needs about 40% soil and 60% ambient'') =
      Inr (PDict [(''index'', PInt 0),
        (''message'', PDict [(''role'', PStr ''assistant''),
                             (''content'', PStr ''Needs about 40% soil and 60% ambient'')]),
        (''finish_reason'', PStr ''stop'')])"
    by (simp add: text_reply_def first_choice_def)
  have n: "findall_num ''Needs about 40% soil and 60% ambient'' = [''40'', ''60'']"
    by code_simp
  have v: "digits_value ''40'' = 40" "digits_value ''60'' = 60"
    by code_simp+
  show ?thesis
    using text_fallback [where create = "const_client (Inr (text_reply ''Needs about 40% soil and 60% ambient''))"
        and ld = demo_loads and content = "''Needs about 40% soil and 60% ambient''"
        and m = "[(''role'', PStr ''assistant''),
                  (''content'', PStr ''Needs about 40% soil and 60% ambient'')]",
        OF j k s c f]
    by (simp add: n v del: findall_num.simps)
qed

text \<open>
  Claim C10. On the structured path (lines 64 to 85), for either humidity field \<open>k\<close>: a
  payload without the field and a payload with the field equal to -1, alike otherwise,
  give the same dictionary \<^verbatim>\<open>out\<close> or the same exception, and a 200 response carries 50
  for the field; a payload with any other negative integer gives 0 for the field in a 200
  response.
\<close>

theorem minus_one_is_missing:
  assumes "k = ''humedad_tierra'' \<or> k = ''humedad_ambiente''"
    and "ld s1 = Inr (PDict a1)" and "map_of a1 k = None"
    and "ld s2 = Inr (PDict a2)" and "map_of a2 k = Some (PInt (- 1))"
    and "\<forall>k'. k' \<noteq> k \<longrightarrow> map_of a2 k' = map_of a1 k'"
    and "ld s3 = Inr (PDict a3)" and "map_of a3 k = Some (PInt n)" and "n < 0" and "n \<noteq> - 1"
  shows "structured_out ld (PStr s1) = structured_out ld (PStr s2)
     \<and> (\<forall>out. structured_path ld (PStr s1) = Response out 200 \<longrightarrow> map_of out k = Some (J (PInt 50)))
     \<and> (\<forall>out. structured_path ld (PStr s2) = Response out 200 \<longrightarrow> map_of out k = Some (J (PInt 50)))
     \<and> (\<forall>out. structured_path ld (PStr s3) = Response out 200 \<longrightarrow> map_of out k = Some (J (PInt 0)))"
proof -
  have e: "structured_out ld (PStr s1) = structured_out ld (PStr s2)"
  proof (rule structured_out_cong [OF assms(2,4)])
    show "(case map_of a1 ''humedad_tierra'' of None \<Rightarrow> PInt (- 1) | Some v \<Rightarrow> v)
       = (case map_of a2 ''humedad_tierra'' of None \<Rightarrow> PInt (- 1) | Some v \<Rightarrow> v)"
      using assms(3,5,6) by (cases "k = ''humedad_tierra''") simp_all
    show "(case map_of a1 ''humedad_ambiente'' of None \<Rightarrow> PInt (- 1) | Some v \<Rightarrow> v)
       = (case map_of a2 ''humedad_ambiente'' of None \<Rightarrow> PInt (- 1) | Some v \<Rightarrow> v)"
      using assms(3,5,6) by (cases "k = ''humedad_ambiente''") simp_all
    show "map_of a1 ''tipo'' = map_of a2 ''tipo''"
      using assms(1,6) by auto
  qed
  have v1: "(case map_of a1 k of None \<Rightarrow> PInt (- 1) | Some v \<Rightarrow> v) = PInt (- 1)"
    using assms(3) by simp
  have v2: "(case map_of a2 k of None \<Rightarrow> PInt (- 1) | Some v \<Rightarrow> v) = PInt (- 1)"
    using assms(5) by simp
  have v3: "(case map_of a3 k of None \<Rightarrow> PInt (- 1) | Some v \<Rightarrow> v) = PInt n"
    using assms(8) by simp
  have m: "clamp_humidity (- 1) = 50" by (simp add: clamp_humidity_def)
  have z: "clamp_humidity n = 0" using assms(9,10) by (simp add: clamp_humidity_def)
  show ?thesis
    using e structured_path_value [of ld s1 a1 k "- 1", OF assms(2) assms(1) v1]
      structured_path_value [of ld s2 a2 k "- 1", OF assms(4) assms(1) v2]
      structured_path_value [of ld s3 a3 k n, OF assms(7) assms(1) v3] m z
    by simp
qed

text \<open>
  The three payloads: no \<^verbatim>\<open>humedad_tierra\<close>, \<^verbatim>\<open>humedad_tierra\<close> -1, \<^verbatim>\<open>humedad_tierra\<close> -5.
\<close>

theorem minus_one_is_missing_witness:
  "structured_out demo_loads (PStr payload_missing) = structured_out demo_loads (PStr payload_minus_one)
   \<and> structured_path demo_loads (PStr payload_missing) =
       Response [(''humedad_tierra'', J (PInt 50)), (''humedad_ambiente'', J (PInt 70)),
                 (''tipo'', J (PStr ''exterior''))] 200
   \<and> structured_path demo_loads (PStr payload_minus_one) =
       Response [(''humedad_tierra'', J (PInt 50)), (''humedad_ambiente'', J (PInt 70)),
                 (''tipo'', J (PStr ''exterior''))] 200
   \<and> structured_path demo_loads (PStr payload_minus_five) =
       Response [(''humedad_tierra'', J (PInt 0)), (''humedad_ambiente'', J (PInt 70)),
                 (''tipo'', J (PStr ''exterior''))] 200"
proof -
  have l1: "demo_loads payload_missing =
      Inr (PDict [(''humedad_ambiente'', PInt 70), (''tipo'', PStr ''exterior'')])"
    by code_simp
  have l2: "demo_loads payload_minus_one =
      Inr (PDict [(''humedad_tierra'', PInt (- 1)), (''humedad_ambiente'', PInt 70),
                  (''tipo'', PStr ''exterior'')])"
    by code_simp
  have l3: "demo_loads payload_minus_five =
      Inr (PDict [(''humedad_tierra'', PInt (- 5)), (''humedad_ambiente'', PInt 70),
                  (''tipo'', PStr ''exterior'')])"
    by code_simp
  have "structured_out demo_loads (PStr payload_missing) = structured_out demo_loads (PStr payload_minus_one)
     \<and> (\<forall>out. structured_path demo_loads (PStr payload_missing) = Response out 200 \<longrightarrow> map_of out ''humedad_tierra'' = Some (J (PInt 50)))
     \<and> (\<forall>out. structured_path demo_loads (PStr payload_minus_one) = Response out 200 \<longrightarrow> map_of out ''humedad_tierra'' = Some (J (PInt 50)))
     \<and> (\<forall>out. structured_path demo_loads (PStr payload_minus_five) = Response out 200 \<longrightarrow> map_of out ''humedad_tierra'' = Some (J (PInt 0)))"
    by (rule minus_one_is_missing [of "''humedad_tierra''" demo_loads payload_missing _ payload_minus_one _ payload_minus_five _ "- 5", OF _ l1 _ l2 _ _ l3]) simp_all
  then have e: "structured_out demo_loads (PStr payload_missing) = structured_out demo_loads (PStr payload_minus_one)"
    by (rule conjunct1)
  have p1: "structured_path demo_loads (PStr payload_missing) =
       Response [(''humedad_tierra'', J (PInt 50)), (''humedad_ambiente'', J (PInt 70)),
                 (''tipo'', J (PStr ''exterior''))] 200"
    by code_simp
  have p3: "structured_path demo_loads (PStr payload_minus_five) =
       Response [(''humedad_tierra'', J (PInt 0)), (''humedad_ambiente'', J (PInt 70)),
                 (''tipo'', J (PStr ''exterior''))] 200"
    by code_simp
  have p2: "structured_path demo_loads (PStr payload_minus_one) =
       Response [(''humedad_tierra'', J (PInt 50)), (''humedad_ambiente'', J (PInt 70)),
                 (''tipo'', J (PStr ''exterior''))] 200"
    by code_simp
  from e p1 p2 p3 show ?thesis by (intro conjI)
qed

section \<open>Properties of the question endpoint\<close>

lemma blank_field_strip:
  "blank_field v \<Longrightarrow> truthy v \<Longrightarrow> \<exists>s. v = PStr s \<and> py_strip s = []"
  by (cases v) auto

lemma py_strip_Nil: "py_strip [] = []"
  by (simp add: py_strip_def)

lemma blank_or:
  assumes "blank_field a" and "blank_field b"
  shows "blank_field (py_or a b)"
  using assms by (simp add: py_or_def)

lemma blank_strip_method:
  assumes "blank_field v" and "truthy v \<or> v = PStr []"
  shows "strip_method v = Inr []"
  using assms blank_field_strip by (cases v) (auto simp: py_strip_Nil)

lemma pregunta_value_first:
  "pregunta_value ld dec req =
     first_nonempty [data_pregunta (esplanta_data ld dec req),
                     multidict_get (form req) ''pregunta'', multidict_get (args req) ''pregunta'']"
  by (simp add: pregunta_value_def first_nonempty_def py_or_def Let_def)

lemma esplanta_call:
  assumes "pregunta_value ld dec req = PStr s"
  shows "esplanta ld dec create req =
     (if py_strip s = []
      then (Response [(''error'', J (PStr ''missing 'pregunta' in JSON body''))] 400, [])
      else ((case create (esplanta_kwargs (py_strip s)) of Inl e \<Rightarrow> openai_failed e
             | Inr resp \<Rightarrow> (case esplanta_reply resp of Inl e \<Rightarrow> openai_failed e | Inr r \<Rightarrow> r)),
            [esplanta_kwargs (py_strip s)]))"
  using assms by (simp add: esplanta_def Let_def)

lemma esplanta_data_parsed:
  "json_silent req \<noteq> PNone \<Longrightarrow>
     esplanta_data ld dec req = (if is_dict (json_silent req) then json_silent req else PDict [])"
  by (simp add: esplanta_data_def Let_def)

section \<open>The claims about the question endpoint\<close>

text \<open>
  Claim C2, as the code has it. The value of \<^verbatim>\<open>pregunta\<close> is the first non-empty one of
  three, in this order: the field of the JSON body, the form field, the query-string
  parameter. The JSON body is the parsed body when there is one (and the empty object when
  that is not an object). When there is none, it is the raw body, decoded as UTF-8 and
  then as JSON (again the empty object when that is not an object), and the empty object
  when the raw body is empty or either decoding fails. The chosen value is then trimmed:
  when it is text \<open>s\<close>, the request fails with the 400 response if \<open>s\<close> is blank, and
  otherwise the client is called once, with \<open>s\<close> trimmed as the user message.
\<close>

theorem first_nonempty_wins:
  "pregunta_value ld dec req =
     first_nonempty [data_pregunta (esplanta_data ld dec req),
                     multidict_get (form req) ''pregunta'', multidict_get (args req) ''pregunta'']
   \<and> (json_silent req \<noteq> PNone \<longrightarrow>
        esplanta_data ld dec req = (if is_dict (json_silent req) then json_silent req else PDict []))
   \<and> (json_silent req = PNone \<longrightarrow> data req \<noteq> [] \<longrightarrow> dec (data req) = Inr b \<longrightarrow> b \<noteq> [] \<longrightarrow>
        ld b = Inr v \<longrightarrow>
        esplanta_data ld dec req = (if is_dict v then v else PDict []))
   \<and> (json_silent req = PNone \<longrightarrow>
        data req = [] \<or> dec (data req) = Inl e \<or> (dec (data req) = Inr b \<and> b \<noteq> [] \<and> ld b = Inl e) \<longrightarrow>
        esplanta_data ld dec req = PDict [])
   \<and> (pregunta_value ld dec req = PStr s \<longrightarrow>
        esplanta ld dec create req =
          (if py_strip s = []
           then (Response [(''error'', J (PStr ''missing 'pregunta' in JSON body''))] 400, [])
           else ((case create (esplanta_kwargs (py_strip s)) of Inl e \<Rightarrow> openai_failed e
                  | Inr resp \<Rightarrow> (case esplanta_reply resp of Inl e \<Rightarrow> openai_failed e | Inr r \<Rightarrow> r)),
                 [esplanta_kwargs (py_strip s)])))"
proof (intro conjI impI)
  show "pregunta_value ld dec req =
     first_nonempty [data_pregunta (esplanta_data ld dec req),
                     multidict_get (form req) ''pregunta'', multidict_get (args req) ''pregunta'']"
    by (rule pregunta_value_first)
next
  assume "json_silent req \<noteq> PNone"
  then show "esplanta_data ld dec req = (if is_dict (json_silent req) then json_silent req else PDict [])"
    by (rule esplanta_data_parsed)
next
  assume "json_silent req = PNone" and "data req \<noteq> []" and "dec (data req) = Inr b" and "b \<noteq> []"
    and "ld b = Inr v"
  then show "esplanta_data ld dec req = (if is_dict v then v else PDict [])"
    by (simp add: esplanta_data_def Let_def)
next
  assume "json_silent req = PNone"
    and "data req = [] \<or> dec (data req) = Inl e \<or> (dec (data req) = Inr b \<and> b \<noteq> [] \<and> ld b = Inl e)"
  then show "esplanta_data ld dec req = PDict []"
    by (auto simp: esplanta_data_def Let_def)
next
  assume "pregunta_value ld dec req = PStr s"
  then show "esplanta ld dec create req =
          (if py_strip s = []
           then (Response [(''error'', J (PStr ''missing 'pregunta' in JSON body''))] 400, [])
           else ((case create (esplanta_kwargs (py_strip s)) of Inl e \<Rightarrow> openai_failed e
                  | Inr resp \<Rightarrow> (case esplanta_reply resp of Inl e \<Rightarrow> openai_failed e | Inr r \<Rightarrow> r)),
                 [esplanta_kwargs (py_strip s)]))"
    by (rule esplanta_call)
qed

text \<open>
  A body that is JSON but not declared as such: there is no parsed body, the bytes are
  decoded, and the field found there wins over the query parameter and is trimmed before
  it is sent.
\<close>

theorem first_nonempty_wins_witness:
  "esplanta_data demo_loads ascii_decode undeclared_json_request = PDict [(''pregunta'', PStr '' rosa '')]
   \<and> pregunta_value demo_loads ascii_decode undeclared_json_request = PStr '' rosa ''
   \<and> esplanta demo_loads ascii_decode (const_client (Inr (text_reply yes_text))) undeclared_json_request =
       (Response [(''es_planta'', J (PBool True))] 200, [esplanta_kwargs ''rosa''])"
proof -
  note th = first_nonempty_wins [of demo_loads ascii_decode undeclared_json_request
      payload_pregunta "PDict [(''pregunta'', PStr '' rosa '')]" "LibError []" "'' rosa ''"
      "const_client (Inr (text_reply yes_text))"]
  have j: "json_silent undeclared_json_request = PNone"
      "data undeclared_json_request = payload_pregunta"
      "form undeclared_json_request = Map.empty"
    by (simp_all add: undeclared_json_request_def)
  have n: "payload_pregunta \<noteq> []"
    by (simp add: payload_pregunta_def)
  have b: "ascii_decode payload_pregunta = Inr payload_pregunta"
    by code_simp
  have l: "demo_loads payload_pregunta = Inr (PDict [(''pregunta'', PStr '' rosa '')])"
    by code_simp
  have d: "esplanta_data demo_loads ascii_decode undeclared_json_request =
      PDict [(''pregunta'', PStr '' rosa '')]"
    using th j n b l by simp
  have v: "pregunta_value demo_loads ascii_decode undeclared_json_request = PStr '' rosa ''"
    using th d j by (simp add: first_nonempty_def data_pregunta_def multidict_get_def)
  have s: "py_strip '' rosa '' = ''rosa''"
    by code_simp
  have r: "esplanta_reply (text_reply yes_text) = Inr (Response [(''es_planta'', J (PBool True))] 200)"
    by code_simp
  have "esplanta demo_loads ascii_decode (const_client (Inr (text_reply yes_text))) undeclared_json_request =
       (Response [(''es_planta'', J (PBool True))] 200, [esplanta_kwargs ''rosa''])"
    using th v by (simp add: s r const_client_def)
  with d v show ?thesis by (intro conjI)
qed

text \<open>
  An empty form field is passed over: the query parameter is the value, and it is trimmed
  before it is sent.
\<close>

lemma empty_form_passed_over:
  "esplanta demo_loads ascii_decode (const_client (Inr (text_reply yes_text))) empty_form_rose_query =
     (Response [(''es_planta'', J (PBool True))] 200, [esplanta_kwargs ''rosa''])"
  by code_simp

text \<open>
  The claim as stated fails: the JSON field is two spaces and the query parameter is
  \<^verbatim>\<open>rosa\<close>, yet the request is answered with 400 and the client is not called.
\<close>

theorem blank_json_shadows_query:
  "esplanta demo_loads ascii_decode (const_client (Inr (text_reply yes_text))) blank_json_rose_query =
     (Response [(''error'', J (PStr ''missing 'pregunta' in JSON body''))] 400, [])"
  by code_simp




text \<open>The three examples of the claim hold: the affirmative word, \<^verbatim>\<open>no\<close> and \<^verbatim>\<open>maybe\<close>.\<close>

lemma classify_examples:
  "fst (esplanta demo_loads ascii_decode (const_client (Inr (text_reply yes_text))) ficus_question) =
     Response [(''es_planta'', J (PBool True))] 200
   \<and> fst (esplanta demo_loads ascii_decode (const_client (Inr (text_reply ''no''))) ficus_question) =
     Response [(''es_planta'', J (PBool False))] 200
   \<and> fst (esplanta demo_loads ascii_decode (const_client (Inr (text_reply ''maybe''))) ficus_question) =
     Response [(''es_planta'', J (PBool False)), (''raw'', J (PStr ''maybe''))] 200"
  by code_simp

section \<open>The claims about both endpoints\<close>

text \<open>
  Claim C7. The claim: a request without the required field is answered with the
  documented 400. A request to \<^verbatim>\<open>/especie\<close> whose body is the JSON array \<^verbatim>\<open>[]\<close> has no
  \<^verbatim>\<open>especie\<close>, and line 43 raises \<^verbatim>\<open>AttributeError\<close>; a request with no body at all has
  none either, and line 42 raises \<^verbatim>\<open>BadRequest\<close>. Both exceptions leave the view function,
  so neither request gets the documented body. The question endpoint answers the same two
  requests with its documented 400 (lines 104 to 112 guard them). The client is not called
  in any of the four runs.
\<close>

theorem absent_field_raises:
  "especie demo_loads (const_client (Inr (text_reply ''40 60''))) (json_request (PList []))
     = (Raised AttributeError, [])
   \<and> especie demo_loads (const_client (Inr (text_reply ''40 60''))) empty_request
     = (Raised BadRequest, [])
   \<and> esplanta demo_loads ascii_decode (const_client (Inr (text_reply yes_text))) (json_request (PList []))
     = (Response [(''error'', J (PStr ''missing 'pregunta' in JSON body''))] 400, [])
   \<and> esplanta demo_loads ascii_decode (const_client (Inr (text_reply yes_text))) empty_request
     = (Response [(''error'', J (PStr ''missing 'pregunta' in JSON body''))] 400, [])"
  by code_simp

text \<open>
  Where the claim does hold. For the species endpoint, when the JSON body is an object
  and \<^verbatim>\<open>especie\<close> is absent from it, empty, or blank after trimming; for the question
  endpoint, when \<^verbatim>\<open>pregunta\<close> is so in the JSON body, in the form and in the query string:
  the response is the 400 with the documented error body, and the client is not called.
\<close>

theorem missing_field_400:
  "(json_force req = Inr dat \<longrightarrow> py_get dat ''especie'' PNone = Inr v \<longrightarrow> blank_field v \<longrightarrow>
      especie ld create req = (Response [(''error'', J (PStr ''missing 'especie' in JSON body''))] 400, []))
   \<and> (blank_field (data_pregunta (esplanta_data ld dec req')) \<longrightarrow>
      blank_field (multidict_get (form req') ''pregunta'') \<longrightarrow>
      blank_field (multidict_get (args req') ''pregunta'') \<longrightarrow>
      esplanta ld dec create req' = (Response [(''error'', J (PStr ''missing 'pregunta' in JSON body''))] 400, []))"
proof (intro conjI impI)
  assume j: "json_force req = Inr dat" and g: "py_get dat ''especie'' PNone = Inr v" and b: "blank_field v"
  have "blank_field (py_or v (PStr []))" using b by (simp add: py_or_def py_strip_Nil)
  moreover have "truthy (py_or v (PStr [])) \<or> py_or v (PStr []) = PStr []" by (simp add: py_or_def)
  ultimately have "strip_method (py_or v (PStr [])) = Inr []" by (rule blank_strip_method)
  with j g show "especie ld create req = (Response [(''error'', J (PStr ''missing 'especie' in JSON body''))] 400, [])"
    by (simp add: especie_def)
next
  assume d: "blank_field (data_pregunta (esplanta_data ld dec req'))"
    and f: "blank_field (multidict_get (form req') ''pregunta'')"
    and a: "blank_field (multidict_get (args req') ''pregunta'')"
  have e: "blank_field (PStr [])" by (simp add: py_strip_Nil)
  have "blank_field (pregunta_value ld dec req')"
    unfolding pregunta_value_def Let_def by (intro blank_or d f a e)
  moreover have "truthy (pregunta_value ld dec req') \<or> pregunta_value ld dec req' = PStr []"
    by (simp add: pregunta_value_def Let_def py_or_def)
  ultimately have "strip_method (pregunta_value ld dec req') = Inr []" by (rule blank_strip_method)
  then show "esplanta ld dec create req' = (Response [(''error'', J (PStr ''missing 'pregunta' in JSON body''))] 400, [])"
    by (simp add: esplanta_def)
qed

text \<open>A species of three spaces, and a GET with no question anywhere.\<close>

theorem missing_field_400_witness:
  "especie demo_loads (const_client (Inr (text_reply ''40 60''))) (json_request (PDict [(''especie'', PStr ''   '')]))
     = (Response [(''error'', J (PStr ''missing 'especie' in JSON body''))] 400, [])
   \<and> esplanta demo_loads ascii_decode (const_client (Inr (text_reply yes_text))) empty_request
     = (Response [(''error'', J (PStr ''missing 'pregunta' in JSON body''))] 400, [])"
proof -
  have a: "json_force (json_request (PDict [(''especie'', PStr ''   '')])) = Inr (PDict [(''especie'', PStr ''   '')])"
    by (simp add: json_request_def)
  have b: "py_get (PDict [(''especie'', PStr ''   '')]) ''especie'' PNone = Inr (PStr ''   '')"
    by simp
  have c: "blank_field (PStr ''   '')"
    by code_simp
  have d: "blank_field (data_pregunta (esplanta_data demo_loads ascii_decode empty_request))"
    by code_simp
  have e: "blank_field (multidict_get (form empty_request) ''pregunta'')"
    by code_simp
  have f: "blank_field (multidict_get (args empty_request) ''pregunta'')"
    by code_simp
  show ?thesis
    using missing_field_400 [of "json_request (PDict [(''especie'', PStr ''   '')])"
        "PDict [(''especie'', PStr ''   '')]" "PStr ''   ''" demo_loads
        "const_client (Inr (text_reply ''40 60''))" ascii_decode empty_request]
      missing_field_400 [of "json_request (PDict [(''especie'', PStr ''   '')])"
        "PDict [(''especie'', PStr ''   '')]" "PStr ''   ''" demo_loads
        "const_client (Inr (text_reply yes_text))" ascii_decode empty_request]
      a b c d e f
    by blast
qed

end
